theory Spec2Isabelle
  imports Main "HOL-Library.Word"
begin

section \<open>Python values used by \<^verbatim>\<open>dolphin/transcribe.py\<close>\<close>

text \<open>
  \<^verbatim>\<open>pathlib.Path\<close> in its POSIX flavour: a root (\<open>''''\<close>, \<open>''/''\<close> or \<open>''//''\<close>) and
  the list of components.  \<open>Path s\<close> is the constructor applied to a string, \<open>truediv\<close> is
  the operator \<^verbatim>\<open>/\<close> with a string on the right, \<open>as_posix\<close> is \<^verbatim>\<open>str(p)\<close>.
\<close>

datatype path = PosixPath (root: string) (parts: "string list")

fun split_sep :: "string \<Rightarrow> string list" where
  "split_sep [] = [[]]"
| "split_sep (c # cs) =
     (if c = CHR ''/'' then [] # split_sep cs
      else (case split_sep cs of [] \<Rightarrow> [[c]] | x # xs \<Rightarrow> (c # x) # xs))"

definition splitroot :: "string \<Rightarrow> string" where
  "splitroot p =
     (if take 1 p \<noteq> ''/'' then ''''
      else if take 1 (drop 1 p) \<noteq> ''/'' \<or> take 1 (drop 2 p) = ''/'' then ''/''
      else ''//'')"

definition Path :: "string \<Rightarrow> path" where
  "Path s = PosixPath (splitroot s) (filter (\<lambda>x. x \<noteq> [] \<and> x \<noteq> ''.'') (split_sep s))"

definition truediv :: "path \<Rightarrow> string \<Rightarrow> path" where
  "truediv p key =
     (if take 1 key = ''/'' then Path key
      else PosixPath (root p) (parts p @ parts (Path key)))"

fun join_sep :: "string list \<Rightarrow> string" where
  "join_sep [] = []"
| "join_sep [x] = x"
| "join_sep (x # y # ys) = x @ ''/'' @ join_sep (y # ys)"

definition as_posix :: "path \<Rightarrow> string" where
  "as_posix p = (if root p = [] \<and> parts p = [] then ''.'' else root p @ join_sep (parts p))"

text \<open>
  The values that travel as keyword arguments.  A float is its 64-bit pattern, a
  waveform is whatever the audio loader returns (\<open>'w\<close>).
\<close>

datatype 'w pyval =
    PNone
  | PStr string
  | PBool bool
  | PInt int
  | PFloat "64 word"
  | PPath path
  | PDevice string
  | PWave 'w

type_synonym 'w kwargs = "(string \<times> 'w pyval) list"

datatype exn =
    Exception string
  | TypeError
  | ValueError
  | KeyError string
  | SystemExit int
  | OtherError string

definition opt_str :: "string option \<Rightarrow> 'w pyval" where
  "opt_str x = (case x of None \<Rightarrow> PNone | Some s \<Rightarrow> PStr s)"

definition kwargs_get :: "'w kwargs \<Rightarrow> string \<Rightarrow> 'w pyval \<Rightarrow> 'w pyval" where
  "kwargs_get kwargs k d = (case map_of kwargs k of None \<Rightarrow> d | Some v \<Rightarrow> v)"

section \<open>\<^verbatim>\<open>str2bool\<close>\<close>

text \<open>
  \<^verbatim>\<open>str.lower\<close> on the bytes of a string: the letters A to Z move to a to z, every other
  byte stays.  (No code point outside ASCII lowers to one of the letters of the words
  below, so the byte-wise reading decides the membership tests as Python does.)
\<close>

definition lower_char :: "char \<Rightarrow> char" where
  "lower_char c =
     (let n = (of_char c :: nat) in if 65 \<le> n \<and> n \<le> 90 then char_of (n + 32) else c)"

definition lower :: "string \<Rightarrow> string" where
  "lower s = map lower_char s"

text \<open>
  \<^verbatim>\<open>distutils.util.strtobool\<close>, from the standard library:
  \<^verbatim>\<open>
  val = val.lower()
  if val in ('y', 'yes', 't', 'true', 'on', '1'): return 1
  elif val in ('n', 'no', 'f', 'false', 'off', '0'): return 0
  else: raise ValueError("invalid truth value %r" % (val,))
  \<close>
\<close>

definition strtobool :: "string \<Rightarrow> exn + int" where
  "strtobool val =
     (let val = lower val in
      if val \<in> set [''y'', ''yes'', ''t'', ''true'', ''on'', ''1''] then Inr 1
      else if val \<in> set [''n'', ''no'', ''f'', ''false'', ''off'', ''0''] then Inr 0
      else Inl ValueError)"

definition str2bool :: "string \<Rightarrow> exn + bool" where
  "str2bool val = (case strtobool val of Inl e \<Rightarrow> Inl e | Inr n \<Rightarrow> Inr (n \<noteq> 0))"

text \<open>
  The reading of ``case-insensitively'': every spelling of a word obtained by choosing,
  letter by letter, the lower-case or the upper-case form.
\<close>

definition upper_char :: "char \<Rightarrow> char" where
  "upper_char c =
     (let n = (of_char c :: nat) in if 97 \<le> n \<and> n \<le> 122 then char_of (n - 32) else c)"

fun case_variants :: "string \<Rightarrow> string list" where
  "case_variants [] = [[]]"
| "case_variants (c # cs) =
     concat (map (\<lambda>v. [lower_char c # v, upper_char c # v]) (case_variants cs))"

definition true_words :: "string list" where
  "true_words = [''y'', ''yes'', ''t'', ''true'', ''on'', ''1'']"

definition false_words :: "string list" where
  "false_words = [''n'', ''no'', ''f'', ''false'', ''off'', ''0'']"

definition spellings :: "string list \<Rightarrow> string set" where
  "spellings ws = set (concat (map case_variants ws))"

section \<open>The command line and the collaborators\<close>

text \<open>
  The \<^verbatim>\<open>Namespace\<close> returned by \<^verbatim>\<open>parser_args\<close>: one field per \<^verbatim>\<open>add_argument\<close>, with
  the type its \<^verbatim>\<open>type=\<close> converter produces (\<^verbatim>\<open>--model_dir\<close> is converted by \<^verbatim>\<open>Path\<close>).
\<close>

record args =
  audio :: string
  model :: string
  model_dir :: path
  lang_sym :: "string option"
  region_sym :: "string option"
  dtype :: string
  device :: "string option"
  normalize_length :: bool
  padding_speech :: bool
  predict_time :: bool
  beam_size :: int
  maxlenratio :: "64 word"

text \<open>The namespace when only the two required arguments are given (the declared defaults).\<close>

definition default_args :: "string \<Rightarrow> path \<Rightarrow> args" where
  "default_args a d =
     \<lparr> audio = a, model = ''small'', model_dir = d, lang_sym = None, region_sym = None,
       dtype = ''float32'', device = None, normalize_length = False,
       padding_speech = True, predict_time = True, beam_size = 5, maxlenratio = 0 \<rparr>"

text \<open>
  What the model invocation returns is subscripted by a field name: a dictionary from
  field names to text.
\<close>

type_synonym result = "(string \<times> string) list"

text \<open>
  Everything the file imports and does not define is a parameter: the file system and
  the GPU probe, the class \<^verbatim>\<open>DolphinSpeech2Text\<close> of \<^verbatim>\<open>dolphin/model.py\<close> (its
  constructor and its \<^verbatim>\<open>__call__\<close>, each receiving the keyword arguments in call order),
  \<^verbatim>\<open>load_audio\<close> of \<^verbatim>\<open>dolphin/audio.py\<close>, and the outcome of \<^verbatim>\<open>ArgumentParser.parse_args\<close>
  on the process's command line.  Each collaborator may raise.
\<close>

record ('m, 'w) env =
  cuda_is_available :: bool
  path_exists :: "path \<Rightarrow> bool"
  DolphinSpeech2Text :: "'w kwargs \<Rightarrow> exn + 'm"
  load_audio :: "string \<Rightarrow> exn + 'w"
  model_call :: "'m \<Rightarrow> 'w kwargs \<Rightarrow> exn + result"
  parse_args :: "exn + args"

text \<open>
  The observable actions, in program order: calls on the logger \<^verbatim>\<open>dolphin\<close>, the logging
  configuration, and each call into a collaborator.
\<close>

datatype level = ERROR | INFO

datatype ('m, 'w) event =
    LogError string
  | LogInfo string
  | BasicConfig level
  | SetLevel string level
  | Construct "'w kwargs"
  | LoadAudio string
  | Call 'm "'w kwargs"

datatype path_like = AsStr string | AsPath path

section \<open>\<^verbatim>\<open>load_model\<close>\<close>

text \<open>
  A call \<^verbatim>\<open>f(k1=v1, ..., **kwargs)\<close>: the interpreter raises \<^verbatim>\<open>TypeError\<close> (``got multiple
  values for keyword argument'') when a key of \<^verbatim>\<open>kwargs\<close> repeats an explicit keyword,
  before \<^verbatim>\<open>f\<close> is entered.
\<close>

definition repeated_keywords :: "'w kwargs \<Rightarrow> 'w kwargs \<Rightarrow> string list" where
  "repeated_keywords explicit kwargs = filter (\<lambda>k. k \<in> set (map fst explicit)) (map fst kwargs)"

definition construct ::
  "('m, 'w) env \<Rightarrow> 'w kwargs \<Rightarrow> 'w kwargs \<Rightarrow> (exn + 'm) \<times> ('m, 'w) event list" where
  "construct env explicit kwargs =
     (if repeated_keywords explicit kwargs \<noteq> [] then (Inl TypeError, [])
      else (DolphinSpeech2Text env (explicit @ kwargs), [Construct (explicit @ kwargs)]))"

text \<open>
  The parameters \<^verbatim>\<open>model_dir\<close> and \<^verbatim>\<open>device\<close> are rebound in the body: \<open>model_dir0\<close>,
  \<open>device0\<close> are the values received, \<open>model_dir1\<close>, \<open>device1\<close> the values after the two
  \<^verbatim>\<open>if\<close> statements.  \<^verbatim>\<open>model_dir\<close> is a \<^verbatim>\<open>Path\<close> or, by the \<^verbatim>\<open>isinstance\<close> test, a string.
\<close>

definition load_model ::
  "('m, 'w) env \<Rightarrow> string \<Rightarrow> path_like \<Rightarrow> 'w pyval \<Rightarrow> 'w kwargs
     \<Rightarrow> (exn + 'm) \<times> ('m, 'w) event list" where
  "load_model env model_name model_dir0 device0 kwargs =
     (let device1 = (case device0 of
                       PNone \<Rightarrow> PStr (if cuda_is_available env then ''cuda'' else ''cpu'')
                     | _ \<Rightarrow> device0);
          model_dir1 = (case model_dir0 of AsPath p \<Rightarrow> p | AsStr s \<Rightarrow> Path s);
          model_file = truediv model_dir1 (model_name @ ''.pt'');
          train_cfg = truediv model_dir1 ''config.yaml''
      in if \<not> path_exists env model_file then
           (Inl (Exception (''model '' @ model_name
                   @ '' not found, please download the model first.'')),
            [LogError (''model '' @ model_name @ '' not found.'')])
         else
           construct env
             [(''s2t_train_config'', PPath train_cfg),
              (''s2t_model_file'', PPath model_file),
              (''device'', device1),
              (''task_sym'', kwargs_get kwargs ''task_sym'' (PStr ''<asr>'')),
              (''predict_time'', kwargs_get kwargs ''predict_time'' (PBool True))]
             kwargs)"

section \<open>\<^verbatim>\<open>transcribe\<close> and \<^verbatim>\<open>cli\<close>\<close>

definition transcribe ::
  "('m, 'w) env \<Rightarrow> args \<Rightarrow> (exn + result) \<times> ('m, 'w) event list" where
  "transcribe env a =
     (let model_name = model a in
      case load_model env model_name (AsPath (model_dir a)) (opt_str (device a)) [] of
        (Inl e, t) \<Rightarrow> (Inl e, t)
      | (Inr m, t) \<Rightarrow>
          (case load_audio env (audio a) of
             Inl e \<Rightarrow> (Inl e, t @ [LoadAudio (audio a)])
           | Inr waveform \<Rightarrow>
               (let kw = [(''speech'', PWave waveform),
                          (''lang_sym'', opt_str (lang_sym a)),
                          (''region_sym'', opt_str (region_sym a)),
                          (''predict_time'', PBool (predict_time a)),
                          (''padding_speech'', PBool (padding_speech a))]
                in case model_call env m kw of
                     Inl e \<Rightarrow> (Inl e, t @ [LoadAudio (audio a), Call m kw])
                   | Inr result \<Rightarrow>
                       (case map_of result ''text'' of
                          None \<Rightarrow>
                            (Inl (KeyError ''text''), t @ [LoadAudio (audio a), Call m kw])
                        | Some text \<Rightarrow>
                            (Inr result,
                             t @ [LoadAudio (audio a), Call m kw,
                                  LogInfo (''decode result, text: '' @ text)])))))"



section \<open>Reading a run\<close>

fun constructed :: "('m, 'w) event list \<Rightarrow> 'w kwargs list" where
  "constructed [] = []"
| "constructed (Construct kw # es) = kw # constructed es"
| "constructed (e # es) = constructed es"

fun calls :: "('m, 'w) event list \<Rightarrow> ('m \<times> 'w kwargs) list" where
  "calls [] = []"
| "calls (Call m kw # es) = (m, kw) # calls es"
| "calls (e # es) = calls es"

fun logged :: "('m, 'w) event list \<Rightarrow> (level \<times> string) list" where
  "logged [] = []"
| "logged (LogError s # es) = (ERROR, s) # logged es"
| "logged (LogInfo s # es) = (INFO, s) # logged es"
| "logged (e # es) = logged es"

text \<open>
  The names the specification uses: the resolved checkpoint file
  \<^verbatim>\<open>{model_dir}/{model_name}.pt\<close> and the configuration file \<^verbatim>\<open>{model_dir}/config.yaml\<close>, as
  \<^verbatim>\<open>pathlib\<close> joins them; the keywords \<^verbatim>\<open>load_model\<close> writes out in the constructor call.
\<close>

definition resolved_dir :: "path_like \<Rightarrow> path" where
  "resolved_dir d = (case d of AsPath p \<Rightarrow> p | AsStr s \<Rightarrow> Path s)"

definition checkpoint_file :: "path_like \<Rightarrow> string \<Rightarrow> path" where
  "checkpoint_file d model_name = truediv (resolved_dir d) (model_name @ ''.pt'')"

definition config_file :: "path_like \<Rightarrow> path" where
  "config_file d = truediv (resolved_dir d) ''config.yaml''"

definition explicit_keywords :: "string list" where
  "explicit_keywords =
     [''s2t_train_config'', ''s2t_model_file'', ''device'', ''task_sym'', ''predict_time'']"

definition no_repeated_keyword :: "'w kwargs \<Rightarrow> bool" where
  "no_repeated_keyword kwargs = (filter (\<lambda>k. k \<in> set explicit_keywords) (map fst kwargs) = [])"

text \<open>The collaborators did not raise where the run called them.\<close>

definition constructor_returns :: "('m, 'w) env \<Rightarrow> ('m, 'w) event list \<Rightarrow> bool" where
  "constructor_returns env t = list_all (\<lambda>kw. \<not> isl (DolphinSpeech2Text env kw)) (constructed t)"

definition invocation_returns :: "('m, 'w) env \<Rightarrow> ('m, 'w) event list \<Rightarrow> result \<Rightarrow> bool" where
  "invocation_returns env t r = list_all (\<lambda>(m, kw). model_call env m kw = Inr r) (calls t)"

text \<open>A collaborator set for concrete runs: the listed files exist, nothing raises.\<close>

definition sample_result :: result where
  "sample_result = [(''text'', ''<zh><CN><asr> ni hao''), (''text_nospecial'', ''ni hao'')]"

definition sample_env :: "bool \<Rightarrow> path list \<Rightarrow> (string kwargs, string) env" where
  "sample_env gpu files =
     \<lparr> cuda_is_available = gpu,
       path_exists = (\<lambda>p. p \<in> set files),
       DolphinSpeech2Text = Inr,
       load_audio = (\<lambda>f. Inr (''pcm:'' @ f)),
       model_call = (\<lambda>m kw. Inr sample_result),
       parse_args = Inr (default_args ''a.wav'' (Path ''ckpt'')) \<rparr>"

section \<open>Properties of \<^verbatim>\<open>str2bool\<close>\<close>

lemma lower_char_eq_iff:
  "lower_char x = lower_char c \<longleftrightarrow> x = lower_char c \<or> x = upper_char c"
proof -
  have x: "of_char x < (256::nat)" and c: "of_char c < (256::nat)" by simp_all
  have "(of_char (lower_char x) :: nat) = of_char (lower_char c) \<longleftrightarrow>
        (of_char x :: nat) = of_char (lower_char c) \<or> (of_char x :: nat) = of_char (upper_char c)"
    using x c by (auto simp: lower_char_def upper_char_def Let_def)
  then show ?thesis by simp
qed

lemma case_variants_iff: "s \<in> set (case_variants w) \<longleftrightarrow> lower s = lower w"
proof (induction w arbitrary: s)
  case Nil
  then show ?case by (simp add: lower_def)
next
  case (Cons c cs)
  show ?case
  proof (cases s)
    case Nil
    then show ?thesis by (auto simp: lower_def)
  next
    case (Cons x xs)
    have "xs \<in> set (case_variants cs) \<longleftrightarrow> lower xs = lower cs" by (rule Cons.IH)
    then show ?thesis using Cons lower_char_eq_iff [of x c]
      by (auto simp: lower_def)
  qed
qed

lemma spellings_iff: "s \<in> spellings ws \<longleftrightarrow> lower s \<in> lower ` set ws"
  by (auto simp: spellings_def case_variants_iff)

lemma lower_true_words: "map lower true_words = true_words"
  by (simp add: true_words_def lower_def lower_char_def)

lemma lower_false_words: "map lower false_words = false_words"
  by (simp add: false_words_def lower_def lower_char_def)

lemma spellings_true: "s \<in> spellings true_words \<longleftrightarrow> lower s \<in> set true_words"
proof -
  have "lower ` set true_words = set (map lower true_words)" by simp
  then show ?thesis by (simp only: spellings_iff lower_true_words)
qed

lemma spellings_false: "s \<in> spellings false_words \<longleftrightarrow> lower s \<in> set false_words"
proof -
  have "lower ` set false_words = set (map lower false_words)" by simp
  then show ?thesis by (simp only: spellings_iff lower_false_words)
qed

text \<open>
  Claim C9.  \<^verbatim>\<open>str2bool\<close> returns \<^verbatim>\<open>True\<close> exactly on the spellings, in any mix of upper and
  lower case, of y, yes, t, true, on and 1; it returns \<^verbatim>\<open>False\<close> exactly on the spellings
  of n, no, f, false, off and 0; on every other string it raises \<^verbatim>\<open>ValueError\<close>.
\<close>

theorem str2bool_spellings:
  "(str2bool s = Inr True \<longleftrightarrow> s \<in> spellings true_words) \<and>
   (str2bool s = Inr False \<longleftrightarrow> s \<in> spellings false_words) \<and>
   (str2bool s = Inl ValueError \<longleftrightarrow> s \<notin> spellings true_words \<union> spellings false_words)"
  unfolding Un_iff spellings_true spellings_false
  by (auto simp: str2bool_def strtobool_def Let_def true_words_def false_words_def)

theorem str2bool_spellings_witness:
  "str2bool ''Yes'' = Inr True \<and> str2bool ''OFF'' = Inr False \<and>
   str2bool ''maybe'' = Inl ValueError"
proof -
  have y: "''Yes'' \<in> spellings true_words"
    by code_simp
  have f: "''OFF'' \<in> spellings false_words"
    by code_simp
  have m: "''maybe'' \<notin> spellings true_words \<union> spellings false_words"
    by code_simp
  from y f m show ?thesis
    using str2bool_spellings [of "''Yes''"] str2bool_spellings [of "''OFF''"]
      str2bool_spellings [of "''maybe''"] by blast
qed

section \<open>Properties of the paths\<close>

text \<open>
  For a model name without a separator and a directory with at least one component,
  the checkpoint path prints as the directory, a slash, the model name and \<^verbatim>\<open>.pt\<close>.
\<close>

lemma split_sep_plain: "CHR ''/'' \<notin> set s \<Longrightarrow> split_sep s = [s]"
  by (induction s) auto

lemma join_sep_snoc: "xs \<noteq> [] \<Longrightarrow> join_sep (xs @ [x]) = join_sep xs @ ''/'' @ x"
  by (induction xs rule: join_sep.induct) auto

lemma truediv_plain:
  assumes "CHR ''/'' \<notin> set name"
  shows "truediv p (name @ ''.pt'') = PosixPath (root p) (parts p @ [name @ ''.pt''])"
proof -
  have s: "split_sep (name @ ''.pt'') = [name @ ''.pt'']"
    using assms by (intro split_sep_plain) simp
  have n: "take 1 (name @ ''.pt'') \<noteq> ''/''"
    using assms by (cases name) auto
  have d: "name @ ''.pt'' \<noteq> ''.''"
    by (cases name) auto
  show ?thesis
    using n d by (simp add: truediv_def Path_def s)
qed

lemma as_posix_checkpoint_file:
  assumes "CHR ''/'' \<notin> set model_name" and "parts (resolved_dir d) \<noteq> []"
  shows "as_posix (checkpoint_file d model_name)
           = as_posix (resolved_dir d) @ ''/'' @ model_name @ ''.pt''"
  using assms
  by (simp add: checkpoint_file_def truediv_plain as_posix_def join_sep_snoc)

lemma as_posix_checkpoint_file_example:
  "as_posix (checkpoint_file (AsStr ''/data//models/'') ''small'') = ''/data/models/small.pt''"
  by code_simp

section \<open>Properties of \<^verbatim>\<open>load_model\<close>\<close>

lemma load_model_missing:
  "\<not> path_exists env (checkpoint_file d n) \<Longrightarrow>
   load_model env n d dev kwargs =
     (Inl (Exception (''model '' @ n @ '' not found, please download the model first.'')),
      [LogError (''model '' @ n @ '' not found.'')])"
  by (simp add: load_model_def checkpoint_file_def resolved_dir_def Let_def)

lemma load_model_present:
  "path_exists env (checkpoint_file d n) \<Longrightarrow>
   load_model env n d dev kwargs =
     construct env
       [(''s2t_train_config'', PPath (config_file d)),
        (''s2t_model_file'', PPath (checkpoint_file d n)),
        (''device'', (case dev of
                        PNone \<Rightarrow> PStr (if cuda_is_available env then ''cuda'' else ''cpu'')
                      | _ \<Rightarrow> dev)),
        (''task_sym'', kwargs_get kwargs ''task_sym'' (PStr ''<asr>'')),
        (''predict_time'', kwargs_get kwargs ''predict_time'' (PBool True))]
       kwargs"
  by (simp add: load_model_def checkpoint_file_def config_file_def resolved_dir_def Let_def)

lemma repeated_keywords_explicit:
  "repeated_keywords [(''s2t_train_config'', a), (''s2t_model_file'', b), (''device'', c),
      (''task_sym'', d), (''predict_time'', e)] kwargs
   = filter (\<lambda>k. k \<in> set explicit_keywords) (map fst kwargs)"
  by (simp add: repeated_keywords_def explicit_keywords_def)

lemma construct_events:
  "constructed (snd (construct env ex kwargs)) =
     (if repeated_keywords ex kwargs = [] then [ex @ kwargs] else [])"
  by (simp add: construct_def)

text \<open>
  Claim C10.  For every model name, device, keyword arguments and string \<open>s\<close>,
  \<^verbatim>\<open>load_model\<close> called with the string \<open>s\<close> as \<^verbatim>\<open>model_dir\<close> gives the same outcome and the
  same actions (the same existence check, the same constructor call with the same paths)
  as \<^verbatim>\<open>load_model\<close> called with \<^verbatim>\<open>Path(s)\<close>.
\<close>

theorem load_model_str_as_path:
  "load_model env model_name (AsStr s) dev kwargs =
   load_model env model_name (AsPath (Path s)) dev kwargs"
  by (simp add: load_model_def)

theorem load_model_str_as_path_witness:
  "load_model (sample_env False [Path ''ckpt/small.pt'']) ''small'' (AsStr ''ckpt//'') PNone [] =
   load_model (sample_env False [Path ''ckpt/small.pt'']) ''small'' (AsPath (Path ''ckpt//''))
     PNone []"
  using load_model_str_as_path [of "sample_env False [Path ''ckpt/small.pt'']" "''small''"
      "''ckpt//''" PNone "[]"]
  by simp

lemma load_model_constructed:
  "constructed (snd (load_model env n d dev kwargs)) =
     (if path_exists env (checkpoint_file d n) \<and> no_repeated_keyword kwargs
      then [[(''s2t_train_config'', PPath (config_file d)),
             (''s2t_model_file'', PPath (checkpoint_file d n)),
             (''device'', (case dev of
                             PNone \<Rightarrow> PStr (if cuda_is_available env then ''cuda'' else ''cpu'')
                           | _ \<Rightarrow> dev)),
             (''task_sym'', kwargs_get kwargs ''task_sym'' (PStr ''<asr>'')),
             (''predict_time'', kwargs_get kwargs ''predict_time'' (PBool True))] @ kwargs]
      else [])"
proof (cases "path_exists env (checkpoint_file d n)")
  case True
  then show ?thesis
    by (simp add: load_model_present construct_events repeated_keywords_explicit
        no_repeated_keyword_def)
next
  case False
  then show ?thesis by (simp add: load_model_missing)
qed

text \<open>
  Claim C3.  Whenever \<^verbatim>\<open>load_model\<close> calls the constructor, the keyword
  \<^verbatim>\<open>s2t_model_file\<close> is the path \<^verbatim>\<open>model_dir / f"{model_name}.pt"\<close> and the keyword
  \<^verbatim>\<open>s2t_train_config\<close> is the path \<^verbatim>\<open>model_dir / "config.yaml"\<close>, for every model name,
  directory, device and extra keyword arguments.
\<close>

theorem load_model_passes_paths:
  "kw \<in> set (constructed (snd (load_model env model_name d dev kwargs))) \<Longrightarrow>
   map_of kw ''s2t_model_file'' = Some (PPath (checkpoint_file d model_name)) \<and>
   map_of kw ''s2t_train_config'' = Some (PPath (config_file d))"
  by (auto simp: load_model_constructed split: if_splits)

theorem load_model_passes_paths_witness:
  "constructed (snd (load_model (sample_env False [Path ''ckpt/small.pt'']) ''small''
      (AsPath (Path ''ckpt'')) PNone [(''beam_size'', PInt 3)])) \<noteq> [] \<and>
   map_of (hd (constructed (snd (load_model (sample_env False [Path ''ckpt/small.pt'']) ''small''
      (AsPath (Path ''ckpt'')) PNone [(''beam_size'', PInt 3)])))) ''s2t_model_file''
     = Some (PPath (PosixPath [] [''ckpt'', ''small.pt'']))"
proof -
  let ?t = "snd (load_model (sample_env False [Path ''ckpt/small.pt'']) ''small''
      (AsPath (Path ''ckpt'')) PNone [(''beam_size'', PInt 3 :: string pyval)])"
  have c: "checkpoint_file (AsPath (Path ''ckpt'')) ''small'' = PosixPath [] [''ckpt'', ''small.pt'']"
    by code_simp
  have ne: "constructed ?t \<noteq> []"
    by code_simp
  then have "hd (constructed ?t) \<in> set (constructed ?t)" by simp
  from load_model_passes_paths [OF this] have
    "map_of (hd (constructed ?t)) ''s2t_model_file''
       = Some (PPath (checkpoint_file (AsPath (Path ''ckpt'')) ''small''))" by blast
  with ne show ?thesis unfolding c by blast
qed

text \<open>
  Claim C4.  The \<^verbatim>\<open>device\<close> keyword the constructor receives is the \<^verbatim>\<open>device\<close> argument
  itself when that is not \<^verbatim>\<open>None\<close>; when it is \<^verbatim>\<open>None\<close>, it is \<^verbatim>\<open>"cuda"\<close> if a CUDA GPU is
  available and \<^verbatim>\<open>"cpu"\<close> otherwise.
\<close>

theorem load_model_device:
  "kw \<in> set (constructed (snd (load_model env model_name d dev kwargs))) \<Longrightarrow>
   (dev \<noteq> PNone \<longrightarrow> map_of kw ''device'' = Some dev) \<and>
   (dev = PNone \<and> cuda_is_available env \<longrightarrow> map_of kw ''device'' = Some (PStr ''cuda'')) \<and>
   (dev = PNone \<and> \<not> cuda_is_available env \<longrightarrow> map_of kw ''device'' = Some (PStr ''cpu''))"
  by (cases dev) (auto simp: load_model_constructed split: if_splits)

theorem load_model_device_witness:
  "map_of (hd (constructed (snd (load_model (sample_env True [Path ''ckpt/small.pt'']) ''small''
      (AsPath (Path ''ckpt'')) PNone [])))) ''device'' = Some (PStr ''cuda'') \<and>
   map_of (hd (constructed (snd (load_model (sample_env False [Path ''ckpt/small.pt'']) ''small''
      (AsPath (Path ''ckpt'')) PNone [])))) ''device'' = Some (PStr ''cpu'') \<and>
   map_of (hd (constructed (snd (load_model (sample_env True [Path ''ckpt/small.pt'']) ''small''
      (AsPath (Path ''ckpt'')) (PDevice ''cuda:1'') [])))) ''device'' = Some (PDevice ''cuda:1'')"
proof -
  let ?g = "snd (load_model (sample_env True [Path ''ckpt/small.pt'']) ''small''
      (AsPath (Path ''ckpt'')) PNone ([] :: string kwargs))"
  let ?c = "snd (load_model (sample_env False [Path ''ckpt/small.pt'']) ''small''
      (AsPath (Path ''ckpt'')) PNone ([] :: string kwargs))"
  let ?d = "snd (load_model (sample_env True [Path ''ckpt/small.pt'']) ''small''
      (AsPath (Path ''ckpt'')) (PDevice ''cuda:1'') ([] :: string kwargs))"
  have "constructed ?g \<noteq> []" by code_simp
  then have g: "hd (constructed ?g) \<in> set (constructed ?g)" by simp
  have "constructed ?c \<noteq> []" by code_simp
  then have c: "hd (constructed ?c) \<in> set (constructed ?c)" by simp
  have "constructed ?d \<noteq> []" by code_simp
  then have d: "hd (constructed ?d) \<in> set (constructed ?d)" by simp
  have gpu: "cuda_is_available (sample_env True [Path ''ckpt/small.pt''])"
    and cpu: "\<not> cuda_is_available (sample_env False [Path ''ckpt/small.pt''])"
    by (simp_all add: sample_env_def)
  from load_model_device [OF g] load_model_device [OF c] load_model_device [OF d] gpu cpu
  show ?thesis by blast
qed




section \<open>Properties of \<^verbatim>\<open>transcribe\<close> and \<^verbatim>\<open>cli\<close>\<close>

lemma constructed_append: "constructed (xs @ ys) = constructed xs @ constructed ys"
  by (induction xs rule: constructed.induct) simp_all


lemma logged_append: "logged (xs @ ys) = logged xs @ logged ys"
  by (induction xs rule: logged.induct) simp_all

lemma transcribe_constructed:
  "constructed (snd (transcribe env a)) =
   constructed (snd (load_model env (model a) (AsPath (model_dir a)) (opt_str (device a)) []))"
  by (simp add: transcribe_def Let_def constructed_append
      split: prod.splits sum.splits option.splits)


lemma load_model_returns:
  assumes "path_exists env (checkpoint_file d n)"
    and "no_repeated_keyword kwargs"
    and "constructor_returns env (snd (load_model env n d dev kwargs))"
  shows "\<exists>m kw. load_model env n d dev kwargs = (Inr m, [Construct kw]) \<and>
           DolphinSpeech2Text env kw = Inr m"
proof -
  let ?kw = "[(''s2t_train_config'', PPath (config_file d)),
             (''s2t_model_file'', PPath (checkpoint_file d n)),
             (''device'', (case dev of
                             PNone \<Rightarrow> PStr (if cuda_is_available env then ''cuda'' else ''cpu'')
                           | _ \<Rightarrow> dev)),
             (''task_sym'', kwargs_get kwargs ''task_sym'' (PStr ''<asr>'')),
             (''predict_time'', kwargs_get kwargs ''predict_time'' (PBool True))] @ kwargs"
  from assms(1,2) have c: "constructed (snd (load_model env n d dev kwargs)) = [?kw]"
    by (simp add: load_model_constructed)
  with assms(3) have "\<not> isl (DolphinSpeech2Text env ?kw)"
    by (simp add: constructor_returns_def)
  then obtain m where m: "DolphinSpeech2Text env ?kw = Inr m"
    by (cases "DolphinSpeech2Text env ?kw") auto
  from assms(1,2) have "load_model env n d dev kwargs
      = (DolphinSpeech2Text env ?kw, [Construct ?kw])"
    by (simp add: load_model_present construct_def repeated_keywords_explicit
        no_repeated_keyword_def)
  with m show ?thesis by auto
qed

lemma transcribe_loads:
  assumes "path_exists env (checkpoint_file (AsPath (model_dir a)) (model a))"
    and "constructor_returns env (snd (transcribe env a))"
  shows "\<exists>m kw. load_model env (model a) (AsPath (model_dir a)) (opt_str (device a)) []
           = (Inr m, [Construct kw])"
proof -
  have "no_repeated_keyword ([] :: 'b kwargs)" by (simp add: no_repeated_keyword_def)
  moreover from assms(2) have "constructor_returns env
      (snd (load_model env (model a) (AsPath (model_dir a)) (opt_str (device a)) []))"
    by (simp add: constructor_returns_def transcribe_constructed)
  ultimately show ?thesis
    using assms(1) load_model_returns by blast
qed

lemma transcribe_calls:
  assumes "path_exists env (checkpoint_file (AsPath (model_dir a)) (model a))"
    and "constructor_returns env (snd (transcribe env a))"
    and "load_audio env (audio a) = Inr w"
  shows "\<exists>m kw. load_model env (model a) (AsPath (model_dir a)) (opt_str (device a)) []
             = (Inr m, [Construct kw]) \<and>
           calls (snd (transcribe env a)) =
             [(m, [(''speech'', PWave w),
                   (''lang_sym'', opt_str (lang_sym a)),
                   (''region_sym'', opt_str (region_sym a)),
                   (''predict_time'', PBool (predict_time a)),
                   (''padding_speech'', PBool (padding_speech a))])]"
proof -
  from transcribe_loads [OF assms(1,2)] obtain m kw where
    l: "load_model env (model a) (AsPath (model_dir a)) (opt_str (device a)) []
          = (Inr m, [Construct kw])" by blast
  have "calls (snd (transcribe env a)) =
             [(m, [(''speech'', PWave w),
                   (''lang_sym'', opt_str (lang_sym a)),
                   (''region_sym'', opt_str (region_sym a)),
                   (''predict_time'', PBool (predict_time a)),
                   (''padding_speech'', PBool (padding_speech a))])]"
    by (simp add: transcribe_def l assms(3) Let_def split: sum.splits option.splits)
  with l show ?thesis by blast
qed

lemma transcribe_completes:
  assumes "path_exists env (checkpoint_file (AsPath (model_dir a)) (model a))"
    and "constructor_returns env (snd (transcribe env a))"
    and "\<not> isl (load_audio env (audio a))"
    and "invocation_returns env (snd (transcribe env a)) r"
    and "map_of r ''text'' = Some txt"
  shows "\<exists>t. transcribe env a = (Inr r, t @ [LogInfo (''decode result, text: '' @ txt)]) \<and>
             logged t = []"
proof -
  from assms(3) obtain w where w: "load_audio env (audio a) = Inr w"
    by (cases "load_audio env (audio a)") auto
  from transcribe_calls [OF assms(1,2) w] obtain m kw where
    l: "load_model env (model a) (AsPath (model_dir a)) (opt_str (device a)) []
          = (Inr m, [Construct kw])"
    and c: "calls (snd (transcribe env a)) =
             [(m, [(''speech'', PWave w),
                   (''lang_sym'', opt_str (lang_sym a)),
                   (''region_sym'', opt_str (region_sym a)),
                   (''predict_time'', PBool (predict_time a)),
                   (''padding_speech'', PBool (padding_speech a))])]" by blast
  from assms(4) c have r: "model_call env m [(''speech'', PWave w),
                   (''lang_sym'', opt_str (lang_sym a)),
                   (''region_sym'', opt_str (region_sym a)),
                   (''predict_time'', PBool (predict_time a)),
                   (''padding_speech'', PBool (padding_speech a))] = Inr r"
    by (simp add: invocation_returns_def)
  have "transcribe env a =
      (Inr r, [Construct kw, LoadAudio (audio a),
               Call m [(''speech'', PWave w),
                   (''lang_sym'', opt_str (lang_sym a)),
                   (''region_sym'', opt_str (region_sym a)),
                   (''predict_time'', PBool (predict_time a)),
                   (''padding_speech'', PBool (padding_speech a))]]
              @ [LogInfo (''decode result, text: '' @ txt)])"
    by (simp add: transcribe_def l w r assms(5) Let_def)
  then show ?thesis by (intro exI conjI, assumption) simp
qed

text \<open>
  Claim C5.  When the checkpoint file exists, the constructor returns a model and the
  audio loader returns a waveform for the positional \<^verbatim>\<open>audio\<close> argument, \<^verbatim>\<open>transcribe\<close>
  invokes that model exactly once, with \<^verbatim>\<open>speech\<close> the loaded waveform and \<^verbatim>\<open>lang_sym\<close>,
  \<^verbatim>\<open>region_sym\<close>, \<^verbatim>\<open>predict_time\<close> and \<^verbatim>\<open>padding_speech\<close> the parsed arguments of the same
  names.
\<close>

theorem transcribe_invokes_model_once:
  assumes "path_exists env (checkpoint_file (AsPath (model_dir a)) (model a))"
    and "constructor_returns env (snd (transcribe env a))"
    and "load_audio env (audio a) = Inr w"
  shows "\<exists>m. fst (load_model env (model a) (AsPath (model_dir a)) (opt_str (device a)) []) = Inr m \<and>
           calls (snd (transcribe env a)) =
             [(m, [(''speech'', PWave w),
                   (''lang_sym'', opt_str (lang_sym a)),
                   (''region_sym'', opt_str (region_sym a)),
                   (''predict_time'', PBool (predict_time a)),
                   (''padding_speech'', PBool (padding_speech a))])]"
proof -
  from transcribe_calls [OF assms] obtain m kw where
    "load_model env (model a) (AsPath (model_dir a)) (opt_str (device a)) []
       = (Inr m, [Construct kw])"
    and "calls (snd (transcribe env a)) =
             [(m, [(''speech'', PWave w),
                   (''lang_sym'', opt_str (lang_sym a)),
                   (''region_sym'', opt_str (region_sym a)),
                   (''predict_time'', PBool (predict_time a)),
                   (''padding_speech'', PBool (padding_speech a))])]" by blast
  then show ?thesis by simp
qed

theorem transcribe_invokes_model_once_witness:
  "calls (snd (transcribe (sample_env False [Path ''ckpt/small.pt''])
      ((default_args ''a.wav'' (Path ''ckpt'')) \<lparr> lang_sym := Some ''<zh>'', predict_time := False \<rparr>))) =
   [([(''s2t_train_config'', PPath (PosixPath [] [''ckpt'', ''config.yaml''])),
      (''s2t_model_file'', PPath (PosixPath [] [''ckpt'', ''small.pt''])),
      (''device'', PStr ''cpu''), (''task_sym'', PStr ''<asr>''),
      (''predict_time'', PBool True)],
     [(''speech'', PWave ''pcm:a.wav''), (''lang_sym'', PStr ''<zh>''),
      (''region_sym'', PNone), (''predict_time'', PBool False),
      (''padding_speech'', PBool True)])]"
proof -
  let ?E = "sample_env False [Path ''ckpt/small.pt'']"
  let ?A = "(default_args ''a.wav'' (Path ''ckpt'')) \<lparr> lang_sym := Some ''<zh>'', predict_time := False \<rparr>"
  have e: "path_exists ?E (checkpoint_file (AsPath (model_dir ?A)) (model ?A))" by code_simp
  have c: "constructor_returns ?E (snd (transcribe ?E ?A))" by code_simp
  have w: "load_audio ?E (audio ?A) = Inr ''pcm:a.wav''" by code_simp
  have m: "fst (load_model ?E (model ?A) (AsPath (model_dir ?A)) (opt_str (device ?A)) []) =
    Inr [(''s2t_train_config'', PPath (PosixPath [] [''ckpt'', ''config.yaml''])),
      (''s2t_model_file'', PPath (PosixPath [] [''ckpt'', ''small.pt''])),
      (''device'', PStr ''cpu''), (''task_sym'', PStr ''<asr>''),
      (''predict_time'', PBool True)]" by code_simp
  have v: "opt_str (lang_sym ?A) = (PStr ''<zh>'' :: string pyval)"
    "opt_str (region_sym ?A) = (PNone :: string pyval)"
    "predict_time ?A = False" "padding_speech ?A = True"
    by (simp_all add: default_args_def opt_str_def)
  from transcribe_invokes_model_once [OF e c w] obtain m' where
    "fst (load_model ?E (model ?A) (AsPath (model_dir ?A)) (opt_str (device ?A)) []) = Inr m'"
    and cs: "calls (snd (transcribe ?E ?A)) =
             [(m', [(''speech'', PWave ''pcm:a.wav''),
                   (''lang_sym'', opt_str (lang_sym ?A)),
                   (''region_sym'', opt_str (region_sym ?A)),
                   (''predict_time'', PBool (predict_time ?A)),
                   (''padding_speech'', PBool (padding_speech ?A))])]" by blast
  with m have "m' = [(''s2t_train_config'', PPath (PosixPath [] [''ckpt'', ''config.yaml''])),
      (''s2t_model_file'', PPath (PosixPath [] [''ckpt'', ''small.pt''])),
      (''device'', PStr ''cpu''), (''task_sym'', PStr ''<asr>''),
      (''predict_time'', PBool True)]" by simp
  with cs show ?thesis unfolding v by simp
qed

text \<open>
  Claim C6.  When the checkpoint file exists and the collaborators return (the
  constructor a model, the audio loader a waveform, the model invocation a result \<open>r\<close>
  that has a \<^verbatim>\<open>text\<close> field), \<^verbatim>\<open>transcribe\<close> returns exactly \<open>r\<close>, and the one message it
  logs is the \<^verbatim>\<open>text\<close> field of \<open>r\<close> after the prefix \<^verbatim>\<open>decode result, text: \<close>.
\<close>

theorem transcribe_returns_model_result:
  assumes "path_exists env (checkpoint_file (AsPath (model_dir a)) (model a))"
    and "constructor_returns env (snd (transcribe env a))"
    and "\<not> isl (load_audio env (audio a))"
    and "invocation_returns env (snd (transcribe env a)) r"
    and "map_of r ''text'' = Some txt"
  shows "fst (transcribe env a) = Inr r \<and>
         logged (snd (transcribe env a)) = [(INFO, ''decode result, text: '' @ txt)]"
proof -
  from transcribe_completes [OF assms] obtain t where
    "transcribe env a = (Inr r, t @ [LogInfo (''decode result, text: '' @ txt)])"
    and "logged t = []" by blast
  then show ?thesis by (simp add: logged_append)
qed

theorem transcribe_returns_model_result_witness:
  "fst (transcribe (sample_env False [Path ''ckpt/small.pt'']) (default_args ''a.wav'' (Path ''ckpt'')))
     = Inr [(''text'', ''<zh><CN><asr> ni hao''), (''text_nospecial'', ''ni hao'')] \<and>
   logged (snd (transcribe (sample_env False [Path ''ckpt/small.pt''])
     (default_args ''a.wav'' (Path ''ckpt''))))
     = [(INFO, ''decode result, text: <zh><CN><asr> ni hao'')]"
proof -
  let ?E = "sample_env False [Path ''ckpt/small.pt'']"
  let ?A = "default_args ''a.wav'' (Path ''ckpt'')"
  have e: "path_exists ?E (checkpoint_file (AsPath (model_dir ?A)) (model ?A))" by code_simp
  have c: "constructor_returns ?E (snd (transcribe ?E ?A))" by code_simp
  have w: "\<not> isl (load_audio ?E (audio ?A))" by code_simp
  have i: "invocation_returns ?E (snd (transcribe ?E ?A))
      [(''text'', ''<zh><CN><asr> ni hao''), (''text_nospecial'', ''ni hao'')]" by code_simp
  have t: "map_of [(''text'', ''<zh><CN><asr> ni hao''), (''text_nospecial'', ''ni hao'')] ''text''
      = Some ''<zh><CN><asr> ni hao''" by simp
  from transcribe_returns_model_result [OF e c w i t] show ?thesis by simp
qed








text \<open>
  Claim C1, as the code has it.  In a run that reaches the model invocation (checkpoint
  file present, constructor and audio loader returning) there is one constructor call
  and one model invocation.  The invocation receives \<^verbatim>\<open>lang_sym\<close>, \<^verbatim>\<open>region_sym\<close>,
  \<^verbatim>\<open>predict_time\<close> and \<^verbatim>\<open>padding_speech\<close> with the parsed values of the flags of the same
  names.  The constructor receives \<^verbatim>\<open>device\<close> with the parsed value of \<^verbatim>\<open>--device\<close> when
  given, and \<^verbatim>\<open>"cuda"\<close> or \<^verbatim>\<open>"cpu"\<close> when absent; it receives \<^verbatim>\<open>--model\<close> only as part of
  \<^verbatim>\<open>s2t_model_file\<close>, the path \<^verbatim>\<open>model_dir / f"{model}.pt"\<close>: neither call has a keyword
  named \<^verbatim>\<open>model\<close>.
\<close>

theorem transcribe_passes_flags:
  assumes "path_exists env (checkpoint_file (AsPath (model_dir a)) (model a))"
    and "constructor_returns env (snd (transcribe env a))"
    and "\<not> isl (load_audio env (audio a))"
  shows "\<exists>m kw0 kw1.
           constructed (snd (transcribe env a)) = [kw0] \<and>
           calls (snd (transcribe env a)) = [(m, kw1)] \<and>
           map_of kw1 ''lang_sym'' = Some (opt_str (lang_sym a)) \<and>
           map_of kw1 ''region_sym'' = Some (opt_str (region_sym a)) \<and>
           map_of kw1 ''predict_time'' = Some (PBool (predict_time a)) \<and>
           map_of kw1 ''padding_speech'' = Some (PBool (padding_speech a)) \<and>
           map_of kw0 ''device'' =
             Some (case device a of
                     Some d \<Rightarrow> PStr d
                   | None \<Rightarrow> PStr (if cuda_is_available env then ''cuda'' else ''cpu'')) \<and>
           map_of kw0 ''s2t_model_file'' =
             Some (PPath (truediv (model_dir a) (model a @ ''.pt''))) \<and>
           ''model'' \<notin> set (map fst kw0) \<and>
           ''model'' \<notin> set (map fst kw1)"
proof -
  from assms(3) obtain w where w: "load_audio env (audio a) = Inr w"
    by (cases "load_audio env (audio a)") auto
  let ?kw1 = "[(''speech'', PWave w),
               (''lang_sym'', opt_str (lang_sym a)),
               (''region_sym'', opt_str (region_sym a)),
               (''predict_time'', PBool (predict_time a)),
               (''padding_speech'', PBool (padding_speech a))]"
  let ?kw0 = "[(''s2t_train_config'', PPath (config_file (AsPath (model_dir a)))),
               (''s2t_model_file'', PPath (truediv (model_dir a) (model a @ ''.pt''))),
               (''device'', (case device a of
                               Some d \<Rightarrow> PStr d
                             | None \<Rightarrow> PStr (if cuda_is_available env then ''cuda'' else ''cpu''))),
               (''task_sym'', PStr ''<asr>''),
               (''predict_time'', PBool True)]"
  from transcribe_calls [OF assms(1,2) w] obtain m kw where
    c: "calls (snd (transcribe env a)) = [(m, ?kw1)]" by blast
  have k: "constructed (snd (transcribe env a)) = [?kw0]"
    using assms(1)
    by (simp add: transcribe_constructed load_model_constructed no_repeated_keyword_def
        kwargs_get_def opt_str_def checkpoint_file_def resolved_dir_def split: option.splits)
  have "map_of ?kw1 ''lang_sym'' = Some (opt_str (lang_sym a)) \<and>
        map_of ?kw1 ''region_sym'' = Some (opt_str (region_sym a)) \<and>
        map_of ?kw1 ''predict_time'' = Some (PBool (predict_time a)) \<and>
        map_of ?kw1 ''padding_speech'' = Some (PBool (padding_speech a)) \<and>
        map_of ?kw0 ''device'' =
          Some (case device a of
                  Some d \<Rightarrow> PStr d
                | None \<Rightarrow> PStr (if cuda_is_available env then ''cuda'' else ''cpu'')) \<and>
        map_of ?kw0 ''s2t_model_file'' =
          Some (PPath (truediv (model_dir a) (model a @ ''.pt''))) \<and>
        ''model'' \<notin> set (map fst ?kw0) \<and>
        ''model'' \<notin> set (map fst ?kw1)"
    by simp
  with c k show ?thesis by blast
qed

theorem transcribe_passes_flags_witness:
  "map_of (snd (hd (calls (snd (transcribe (sample_env True [Path ''ckpt/small.pt''])
      ((default_args ''a.wav'' (Path ''ckpt''))
         \<lparr> region_sym := Some ''<CN>'', predict_time := False \<rparr>)))))) ''predict_time''
     = Some (PBool False) \<and>
   map_of (snd (hd (calls (snd (transcribe (sample_env True [Path ''ckpt/small.pt''])
      ((default_args ''a.wav'' (Path ''ckpt''))
         \<lparr> region_sym := Some ''<CN>'', predict_time := False \<rparr>)))))) ''region_sym''
     = Some (PStr ''<CN>'') \<and>
   map_of (hd (constructed (snd (transcribe (sample_env True [Path ''ckpt/small.pt''])
      ((default_args ''a.wav'' (Path ''ckpt''))
         \<lparr> region_sym := Some ''<CN>'', predict_time := False \<rparr>))))) ''device''
     = Some (PStr ''cuda'')"
proof -
  let ?E = "sample_env True [Path ''ckpt/small.pt'']"
  let ?A = "(default_args ''a.wav'' (Path ''ckpt''))
              \<lparr> region_sym := Some ''<CN>'', predict_time := False \<rparr>"
  have e: "path_exists ?E (checkpoint_file (AsPath (model_dir ?A)) (model ?A))" by code_simp
  have c: "constructor_returns ?E (snd (transcribe ?E ?A))" by code_simp
  have w: "\<not> isl (load_audio ?E (audio ?A))" by code_simp
  have v: "opt_str (region_sym ?A) = (PStr ''<CN>'' :: string pyval)"
    "predict_time ?A = False"
    "(case device ?A of Some d \<Rightarrow> PStr d
      | None \<Rightarrow> PStr (if cuda_is_available ?E then ''cuda'' else ''cpu''))
       = (PStr ''cuda'' :: string pyval)"
    by (simp_all add: default_args_def opt_str_def sample_env_def)
  from transcribe_passes_flags [OF e c w] obtain m kw0 kw1 where
    "constructed (snd (transcribe ?E ?A)) = [kw0]"
    and "calls (snd (transcribe ?E ?A)) = [(m, kw1)]"
    and "map_of kw1 ''predict_time'' = Some (PBool (predict_time ?A))"
    and "map_of kw1 ''region_sym'' = Some (opt_str (region_sym ?A))"
    and "map_of kw0 ''device'' =
          Some (case device ?A of Some d \<Rightarrow> PStr d
                | None \<Rightarrow> PStr (if cuda_is_available ?E then ''cuda'' else ''cpu''))"
    by blast
  then show ?thesis unfolding v by simp
qed

text \<open>
  Claim C1 as stated fails on a run with the default flags.  The constructor call and the
  model invocation receive the keyword arguments listed; none of them is named
  \<^verbatim>\<open>model\<close>, \<^verbatim>\<open>dtype\<close>, \<^verbatim>\<open>normalize_length\<close>, \<^verbatim>\<open>beam_size\<close> or \<^verbatim>\<open>maxlenratio\<close>, none carries the
  parsed value of one of these flags, and the parsed \<^verbatim>\<open>device\<close> (\<^verbatim>\<open>None\<close>) is not what the
  constructor receives.
\<close>

theorem flags_not_passed:
  "fst (transcribe (sample_env False [Path ''ckpt/small.pt''])
      (default_args ''a.wav'' (Path ''ckpt''))) = Inr sample_result \<and>
   constructed (snd (transcribe (sample_env False [Path ''ckpt/small.pt''])
      (default_args ''a.wav'' (Path ''ckpt'')))) =
     [[(''s2t_train_config'', PPath (PosixPath [] [''ckpt'', ''config.yaml''])),
       (''s2t_model_file'', PPath (PosixPath [] [''ckpt'', ''small.pt''])),
       (''device'', PStr ''cpu''),
       (''task_sym'', PStr ''<asr>''),
       (''predict_time'', PBool True)]] \<and>
   map snd (calls (snd (transcribe (sample_env False [Path ''ckpt/small.pt''])
      (default_args ''a.wav'' (Path ''ckpt''))))) =
     [[(''speech'', PWave ''pcm:a.wav''),
       (''lang_sym'', PNone),
       (''region_sym'', PNone),
       (''predict_time'', PBool True),
       (''padding_speech'', PBool True)]] \<and>
   model (default_args ''a.wav'' (Path ''ckpt'')) = ''small'' \<and>
   dtype (default_args ''a.wav'' (Path ''ckpt'')) = ''float32'' \<and>
   normalize_length (default_args ''a.wav'' (Path ''ckpt'')) = False \<and>
   beam_size (default_args ''a.wav'' (Path ''ckpt'')) = 5 \<and>
   maxlenratio (default_args ''a.wav'' (Path ''ckpt'')) = 0 \<and>
   device (default_args ''a.wav'' (Path ''ckpt'')) = None \<and>
   set [''model'', ''dtype'', ''normalize_length'', ''beam_size'', ''maxlenratio'']
     \<inter> set (map fst (concat (constructed (snd (transcribe
         (sample_env False [Path ''ckpt/small.pt''])
         (default_args ''a.wav'' (Path ''ckpt''))))))) = {} \<and>
   set [''model'', ''dtype'', ''normalize_length'', ''beam_size'', ''maxlenratio'']
     \<inter> set (map fst (concat (map snd (calls (snd (transcribe
         (sample_env False [Path ''ckpt/small.pt''])
         (default_args ''a.wav'' (Path ''ckpt'')))))))) = {} \<and>
   set [PStr ''small'', PStr ''float32'', PBool False, PInt 5, PFloat 0]
     \<inter> set (map snd (concat (constructed (snd (transcribe
         (sample_env False [Path ''ckpt/small.pt''])
         (default_args ''a.wav'' (Path ''ckpt''))))))) = {} \<and>
   set [PStr ''small'', PStr ''float32'', PBool False, PInt 5, PFloat 0]
     \<inter> set (map snd (concat (map snd (calls (snd (transcribe
         (sample_env False [Path ''ckpt/small.pt''])
         (default_args ''a.wav'' (Path ''ckpt'')))))))) = {} \<and>
   map_of (hd (constructed (snd (transcribe (sample_env False [Path ''ckpt/small.pt''])
      (default_args ''a.wav'' (Path ''ckpt'')))))) ''device'' \<noteq> Some PNone"
  by code_simp

end
